theory Spec2Isabelle
  imports Complex_Main "HOL-Library.Log_Nat"
begin

section \<open>Review model of the Natours API: rating aggregation on tours\<close>

text \<open>
  The development embeds \<^verbatim>\<open>models/reviewModel.js\<close> (the second document of
  \<^verbatim>\<open>src/controllers/viewsController.js\<close>, lines 15 to 120): the review schema, its
  unique index, the static method \<^verbatim>\<open>calcAverageRatings\<close> and the three hooks that call it.

  Conventions of the embedding.
  \<^item> An ObjectId is a natural number. Only well-formed ids are modelled.
  \<^item> A JavaScript Number is the rational value of a finite IEEE 754 double (\<^typ>\<open>rat\<close>).
    Comparisons are exact; the arithmetic of \<^verbatim>\<open>$avg\<close> is rounded to a double as the server
    does (\<open>to_double\<close> below). \<^verbatim>\<open>NaN\<close>, the infinities and overflow are not modelled.
  \<^item> A Date is the number of milliseconds \<^verbatim>\<open>Date.now()\<close> returns.
  \<^item> A field that a document may lack is an \<^typ>\<open>'a option\<close>; \<^term>\<open>None\<close> stands for
    \<^verbatim>\<open>undefined\<close>/\<^verbatim>\<open>null\<close>.
  \<^item> The database is passed explicitly. An operation returns the error it rejects with, if
    any, together with the database it leaves behind: a rejected promise rolls nothing back.
  \<^item> The operations run one after the other; every asynchronous step runs to completion
    before the next operation starts.
\<close>

subsection \<open>Data\<close>

type_synonym objectId = nat
type_synonym date = nat

datatype error =
    ValidationError   \<comment> \<open>a schema validator rejected the document\<close>
  | DuplicateKey      \<comment> \<open>MongoDB E11000: a unique index rejected the write\<close>
  | TypeError         \<comment> \<open>JavaScript: a property of \<^verbatim>\<open>null\<close> or \<^verbatim>\<open>undefined\<close> was read\<close>

text \<open>A stored review: the five paths of \<^verbatim>\<open>reviewSchema\<close> and the \<^verbatim>\<open>_id\<close> (here \<open>rid\<close>).\<close>

record review_doc =
  rid :: objectId
  review :: "string option"
  rating :: "rat option"
  createdAt :: date
  tour :: "objectId option"
  user :: "objectId option"

text \<open>The object handed to \<^verbatim>\<open>Review.create\<close>: any of the five paths may be absent.\<close>

record review_input =
  in_review :: "string option"
  in_rating :: "rat option"
  in_createdAt :: "date option"
  in_tour :: "objectId option"
  in_user :: "objectId option"

text \<open>
  The update object handed to \<^verbatim>\<open>Review.findByIdAndUpdate\<close>: \<^term>\<open>None\<close> means that the
  update does not mention the path, \<open>Some v\<close> that it sets the path to \<open>v\<close>.
\<close>

record review_patch =
  p_review :: "string option"
  p_rating :: "rat option"
  p_createdAt :: "date option"
  p_tour :: "objectId option"
  p_user :: "objectId option"

text \<open>
  A tour, as far as the review model touches it. The tour schema (\<^verbatim>\<open>models/tourModel.js\<close>)
  is not among the sources, so all its other paths are the parameter \<open>other_paths\<close>.
\<close>

record 'a tour_doc =
  ratingsQuantity :: nat
  ratingsAverage :: "rat option"
  other_paths :: 'a

record 'a db =
  reviews :: "review_doc list"
  tours :: "objectId \<rightharpoonup> 'a tour_doc"

subsection \<open>The schema and its validators\<close>

text \<open>
  The options of a schema path that Mongoose reads. An option under any other key (such as
  \<^verbatim>\<open>rerquired\<close>) is stored with the path and has no effect.
\<close>

record path_options =
  required :: bool
  min_value :: "rat option"
  max_value :: "rat option"

definition reviewSchema_review :: path_options where
  "reviewSchema_review = \<lparr>required = False, min_value = None, max_value = None\<rparr>"
  \<comment> \<open>line 20: \<^verbatim>\<open>type: String, rerquired: [true, ...]\<close>: no \<^verbatim>\<open>required\<close> key\<close>

definition reviewSchema_rating :: path_options where
  "reviewSchema_rating = \<lparr>required = False, min_value = Some 1, max_value = Some 5\<rparr>"
  \<comment> \<open>line 24: \<^verbatim>\<open>type: Number, min: 1, max: 5\<close>\<close>

definition reviewSchema_tour :: path_options where
  "reviewSchema_tour = \<lparr>required = False, min_value = None, max_value = None\<rparr>"
  \<comment> \<open>line 33: \<^verbatim>\<open>rerquired: [true, ...]\<close>: no \<^verbatim>\<open>required\<close> key\<close>

definition reviewSchema_user :: path_options where
  "reviewSchema_user = \<lparr>required = True, min_value = None, max_value = None\<rparr>"
  \<comment> \<open>line 38: \<^verbatim>\<open>required: [true, ...]\<close>\<close>

text \<open>
  Line 31: \<^verbatim>\<open>default: Date.now()\<close>. The call is evaluated once, while the schema literal is
  built, and the number it returns is the default of the path. \<open>loadTime\<close> is the clock at
  that moment, \<open>now\<close> the clock when a document is created.
\<close>

definition createdAt_default :: "date \<Rightarrow> date \<Rightarrow> date" where
  "createdAt_default loadTime now = loadTime"

text \<open>
  Mongoose's validators. \<^verbatim>\<open>required\<close> on a String path also rejects the empty string;
  \<^verbatim>\<open>min\<close> and \<^verbatim>\<open>max\<close> are checked on a value that is present only.
\<close>

definition required_string :: "path_options \<Rightarrow> string option \<Rightarrow> bool" where
  "required_string opts v =
     (if required opts then (case v of None \<Rightarrow> False | Some str \<Rightarrow> str \<noteq> []) else True)"

definition required_id :: "path_options \<Rightarrow> objectId option \<Rightarrow> bool" where
  "required_id opts v = (if required opts then v \<noteq> None else True)"

definition in_range :: "path_options \<Rightarrow> rat option \<Rightarrow> bool" where
  "in_range opts v =
     (case v of None \<Rightarrow> True
      | Some x \<Rightarrow> (case min_value opts of None \<Rightarrow> True | Some lo \<Rightarrow> lo \<le> x) \<and>
                  (case max_value opts of None \<Rightarrow> True | Some hi \<Rightarrow> x \<le> hi))"

definition required_number :: "path_options \<Rightarrow> rat option \<Rightarrow> bool" where
  "required_number opts v = (if required opts then v \<noteq> None else True)"

text \<open>Document validation, run by \<^verbatim>\<open>save\<close> before the insert.\<close>

definition validate_doc :: "review_input \<Rightarrow> bool" where
  "validate_doc inp =
     (required_string reviewSchema_review (in_review inp) \<and>
      required_number reviewSchema_rating (in_rating inp) \<and>
      in_range reviewSchema_rating (in_rating inp) \<and>
      required_id reviewSchema_tour (in_tour inp) \<and>
      required_id reviewSchema_user (in_user inp))"

text \<open>
  Update validation, run by \<^verbatim>\<open>findOneAndUpdate\<close> only when the caller passes
  \<^verbatim>\<open>runValidators: true\<close>; it checks the paths the update sets.
\<close>

definition validate_patch :: "review_patch \<Rightarrow> bool" where
  "validate_patch p =
     ((case p_review p of None \<Rightarrow> True | Some str \<Rightarrow> required_string reviewSchema_review (Some str)) \<and>
      in_range reviewSchema_rating (p_rating p))"

subsection \<open>The unique index\<close>

text \<open>
  Line 50: \<^verbatim>\<open>reviewSchema.index({ tour: 1, user: 1 }, { unique: true })\<close>. The key of a
  document is the pair of the two paths; a missing path is indexed as \<^verbatim>\<open>null\<close>.
\<close>

definition index_key :: "review_doc \<Rightarrow> objectId option \<times> objectId option" where
  "index_key d = (tour d, user d)"

definition unique_index :: "review_doc list \<Rightarrow> bool" where
  "unique_index ds = distinct (map index_key ds)"

subsection \<open>The aggregation pipeline\<close>

text \<open>
  Double arithmetic. \<open>to_double x\<close> is the binary64 number nearest to \<open>x\<close>, ties going to the
  even significand: with \<open>e\<close> the exponent of \<open>x\<close> (at least \<open>-1022\<close>, below which doubles are
  subnormal), \<open>x\<close> is rounded to a multiple of \<open>2 ^ (e - 52)\<close>.
\<close>

definition round_half_even :: "rat \<Rightarrow> int" where
  "round_half_even y =
     (let f = \<lfloor>y\<rfloor>; r = y - of_int f in
      if r < 1 / 2 then f else if 1 / 2 < r then f + 1 else if even f then f else f + 1)"

definition pow2 :: "int \<Rightarrow> rat" where
  "pow2 k = (if 0 \<le> k then 2 ^ nat k else 1 / 2 ^ nat (- k))"

text \<open>The exponent of a positive rational: the largest \<open>k\<close> with \<open>2 ^ k \<le> a\<close>.\<close>

definition ilog2 :: "rat \<Rightarrow> int" where
  "ilog2 a =
     (let k = bitlen (fst (quotient_of a)) - bitlen (snd (quotient_of a))
      in if pow2 k \<le> a then k else k - 1)"

definition to_double :: "rat \<Rightarrow> rat" where
  "to_double x =
     (if x = 0 then 0
      else
        (let e = max (ilog2 \<bar>x\<bar>) (- 1022); ulp = pow2 (e - 52)
         in sgn x * of_int (round_half_even (\<bar>x\<bar> / ulp)) * ulp))"

text \<open>
  \<^verbatim>\<open>$avg\<close> ignores the documents that have no numeric value at the path and yields
  \<^verbatim>\<open>null\<close> when none has one. Otherwise the server adds the values (a compensated sum,
  which returns the sum rounded to a double) and divides the double it gets by the number
  of values, in double arithmetic.
\<close>

definition ratingValues :: "review_doc list \<Rightarrow> rat list" where
  "ratingValues ds = List.map_filter rating ds"

definition mean :: "rat list \<Rightarrow> rat" where
  "mean xs = to_double (to_double (sum_list xs) / of_nat (length xs))"

definition avg :: "review_doc list \<Rightarrow> rat option" where
  "avg ds = (if ratingValues ds = [] then None else Some (mean (ratingValues ds)))"

record stat =
  group_id :: "objectId option"
  nRating :: nat
  avgRating :: "rat option"

text \<open>\<^verbatim>\<open>$match: { tour: tourId }\<close>\<close>

definition match_tour :: "objectId option \<Rightarrow> review_doc list \<Rightarrow> review_doc list" where
  "match_tour tourId ds = filter (\<lambda>d. tour d = tourId) ds"

text \<open>
  \<^verbatim>\<open>$group: { _id: '$tour', nRating: { $sum: 1 }, avgRating: { $avg: '$rating' } }\<close>:
  one result per distinct value of \<^verbatim>\<open>tour\<close> among the incoming documents.
\<close>

definition group_by_tour :: "review_doc list \<Rightarrow> stat list" where
  "group_by_tour ds =
     map (\<lambda>k. \<lparr>group_id = k,
               nRating = length (match_tour k ds),
               avgRating = avg (match_tour k ds)\<rparr>)
         (remdups (map tour ds))"

definition aggregate :: "objectId option \<Rightarrow> review_doc list \<Rightarrow> stat list" where
  "aggregate tourId ds = group_by_tour (match_tour tourId ds)"

subsection \<open>The tour store\<close>

text \<open>
  Modelled from the spec: the Tour model (\<^verbatim>\<open>models/tourModel.js\<close>, required on line 16)
  is missing from the sources. Section 6 of the specification: the Tour Store "exposes
  updateById(id, patch) which is a no-op when id does not resolve to an existing tour";
  section 4.1: the two aggregate fields are set to the values of the patch. The call on
  lines 85 and 90 passes no options (in particular no \<^verbatim>\<open>upsert\<close>). An absent id resolves
  to no tour.
\<close>

definition Tour_findByIdAndUpdate ::
  "objectId option \<Rightarrow> nat \<Rightarrow> rat option \<Rightarrow> (objectId \<rightharpoonup> 'a tour_doc) \<Rightarrow> (objectId \<rightharpoonup> 'a tour_doc)" where
  "Tour_findByIdAndUpdate tourId q a ts =
     (case tourId of
        None \<Rightarrow> ts
      | Some T \<Rightarrow>
          (case ts T of
             None \<Rightarrow> ts
           | Some t \<Rightarrow> ts(T \<mapsto> t\<lparr>ratingsQuantity := q, ratingsAverage := a\<rparr>)))"

subsection \<open>calcAverageRatings\<close>

text \<open>
  Lines 69 to 95. \<^verbatim>\<open>stats[0].nRating\<close> on an empty array would read a property of
  \<^verbatim>\<open>undefined\<close>; the branch is kept in the model.
\<close>

definition calcAverageRatings :: "objectId option \<Rightarrow> 'a db \<Rightarrow> error option \<times> 'a db" where
  "calcAverageRatings tourId s =
     (let stats = aggregate tourId (reviews s) in
      if length stats > 0 then
        (case stats of
           [] \<Rightarrow> (Some TypeError, s)
         | st # _ \<Rightarrow>
             (None, s\<lparr>tours := Tour_findByIdAndUpdate tourId (nRating st) (avgRating st) (tours s)\<rparr>))
      else
        (None, s\<lparr>tours := Tour_findByIdAndUpdate tourId 0 (Some (9 / 2)) (tours s)\<rparr>))"

subsection \<open>Creating a review\<close>

text \<open>
  Lines 98 to 101: the \<^verbatim>\<open>post('save')\<close> hook calls \<^verbatim>\<open>calcAverageRatings\<close> and neither
  awaits nor returns its promise, so the outcome of the recomputation is not the outcome
  of the save.
\<close>

definition post_save :: "review_doc \<Rightarrow> 'a db \<Rightarrow> 'a db" where
  "post_save this s = snd (calcAverageRatings (tour this) s)"

text \<open>
  \<^verbatim>\<open>Review.create\<close>: build the document (with the default of \<^verbatim>\<open>createdAt\<close>), validate
  it, insert it unless the index on \<^verbatim>\<open>_id\<close> or the index of line 50 rejects it, then run
  the hook. \<open>newId\<close> is the ObjectId generated for the document.
\<close>

definition new_doc :: "date \<Rightarrow> date \<Rightarrow> objectId \<Rightarrow> review_input \<Rightarrow> review_doc" where
  "new_doc loadTime now newId inp =
     \<lparr>rid = newId,
      review = in_review inp,
      rating = in_rating inp,
      createdAt = (case in_createdAt inp of None \<Rightarrow> createdAt_default loadTime now | Some t \<Rightarrow> t),
      tour = in_tour inp,
      user = in_user inp\<rparr>"

definition create :: "date \<Rightarrow> date \<Rightarrow> objectId \<Rightarrow> review_input \<Rightarrow> 'a db \<Rightarrow> error option \<times> 'a db" where
  "create loadTime now newId inp s =
     (if \<not> validate_doc inp then (Some ValidationError, s)
      else
        (let this = new_doc loadTime now newId inp in
         if newId \<in> set (map rid (reviews s)) \<or> index_key this \<in> set (map index_key (reviews s))
         then (Some DuplicateKey, s)
         else (None, post_save this (s\<lparr>reviews := reviews s @ [this]\<rparr>))))"

subsection \<open>Update and delete by id\<close>

text \<open>
  \<^verbatim>\<open>findByIdAndUpdate\<close> and \<^verbatim>\<open>findByIdAndDelete\<close> are the queries
  \<^verbatim>\<open>findOneAndUpdate\<close> and \<^verbatim>\<open>findOneAndDelete\<close> with the filter \<^verbatim>\<open>{ _id: id }\<close>, which
  selects the first document with that id. The \<^verbatim>\<open>pre(/^find/)\<close> hook of lines 52 to 66 only
  populates \<^verbatim>\<open>user\<close> in what a query returns; it leaves the store and the path
  \<^verbatim>\<open>tour\<close> as they are and is not modelled.
\<close>

fun findOne :: "objectId \<Rightarrow> review_doc list \<Rightarrow> review_doc option" where
  "findOne i [] = None"
| "findOne i (d # ds) = (if rid d = i then Some d else findOne i ds)"

fun deleteOne :: "objectId \<Rightarrow> review_doc list \<Rightarrow> review_doc list" where
  "deleteOne i [] = []"
| "deleteOne i (d # ds) = (if rid d = i then ds else d # deleteOne i ds)"

fun replaceOne :: "objectId \<Rightarrow> review_doc \<Rightarrow> review_doc list \<Rightarrow> review_doc list" where
  "replaceOne i d' [] = []"
| "replaceOne i d' (d # ds) = (if rid d = i then d' # ds else d # replaceOne i d' ds)"

definition applyPatch :: "review_patch \<Rightarrow> review_doc \<Rightarrow> review_doc" where
  "applyPatch p d =
     d\<lparr>review := (case p_review p of None \<Rightarrow> review d | Some v \<Rightarrow> Some v),
       rating := (case p_rating p of None \<Rightarrow> rating d | Some v \<Rightarrow> Some v),
       createdAt := (case p_createdAt p of None \<Rightarrow> createdAt d | Some v \<Rightarrow> v),
       tour := (case p_tour p of None \<Rightarrow> tour d | Some v \<Rightarrow> Some v),
       user := (case p_user p of None \<Rightarrow> user d | Some v \<Rightarrow> Some v)\<rparr>"

text \<open>
  The update itself: the validators (when asked for) run before the command is sent; the
  command changes the first matching document unless the unique index rejects the result,
  and changes nothing when no document matches.
\<close>

definition exec_update ::
  "bool \<Rightarrow> objectId \<Rightarrow> review_patch \<Rightarrow> review_doc list \<Rightarrow> error + review_doc list" where
  "exec_update runValidators i p ds =
     (if runValidators \<and> \<not> validate_patch p then Inl ValidationError
      else
        (case findOne i ds of
           None \<Rightarrow> Inr ds
         | Some d \<Rightarrow>
             if index_key (applyPatch p d) \<in> set (map index_key (deleteOne i ds))
             then Inl DuplicateKey
             else Inr (replaceOne i (applyPatch p d) ds)))"

text \<open>
  Lines 105 to 109, the \<^verbatim>\<open>pre(/^findOneAnd/)\<close> hook: \<^verbatim>\<open>this.r\<close> is what a clone of the
  query finds before the query runs.
\<close>

definition pre_findOneAnd :: "objectId \<Rightarrow> 'a db \<Rightarrow> review_doc option" where
  "pre_findOneAnd i s = findOne i (reviews s)"

text \<open>
  Lines 111 to 115, the \<^verbatim>\<open>post(/^findOneAnd/)\<close> hook:
  \<^verbatim>\<open>await this.r.constructor.calcAverageRatings(this.r.tour)\<close>. Reading \<^verbatim>\<open>constructor\<close>
  of \<^verbatim>\<open>null\<close> throws; the hook is awaited by the query, which then rejects.
\<close>

definition post_findOneAnd :: "review_doc option \<Rightarrow> 'a db \<Rightarrow> error option \<times> 'a db" where
  "post_findOneAnd r s =
     (case r of
        None \<Rightarrow> (Some TypeError, s)
      | Some d \<Rightarrow> calcAverageRatings (tour d) s)"

definition findByIdAndUpdate ::
  "bool \<Rightarrow> objectId \<Rightarrow> review_patch \<Rightarrow> 'a db \<Rightarrow> error option \<times> 'a db" where
  "findByIdAndUpdate runValidators i p s =
     (let r = pre_findOneAnd i s in
      case exec_update runValidators i p (reviews s) of
        Inl e \<Rightarrow> (Some e, s)
      | Inr ds \<Rightarrow> post_findOneAnd r (s\<lparr>reviews := ds\<rparr>))"

definition findByIdAndDelete :: "objectId \<Rightarrow> 'a db \<Rightarrow> error option \<times> 'a db" where
  "findByIdAndDelete i s =
     (let r = pre_findOneAnd i s in
      post_findOneAnd r (s\<lparr>reviews := deleteOne i (reviews s)\<rparr>))"

subsection \<open>Sequences of review mutations\<close>

text \<open>
  A request that mutates the reviews: a creation (with the clock and the generated id), an
  update by id (with the \<^verbatim>\<open>runValidators\<close> option) or a delete by id.
\<close>

datatype op =
    Create date objectId review_input
  | Update bool objectId review_patch
  | Delete objectId

fun apply_op :: "date \<Rightarrow> op \<Rightarrow> 'a db \<Rightarrow> error option \<times> 'a db" where
  "apply_op loadTime (Create now newId inp) s = create loadTime now newId inp s"
| "apply_op loadTime (Update rv i p) s = findByIdAndUpdate rv i p s"
| "apply_op loadTime (Delete i) s = findByIdAndDelete i s"

text \<open>A failed request does not stop the ones after it.\<close>

fun run :: "date \<Rightarrow> op list \<Rightarrow> 'a db \<Rightarrow> 'a db" where
  "run loadTime [] s = s"
| "run loadTime (x # xs) s = run loadTime xs (snd (apply_op loadTime x s))"

text \<open>
  The argument an operation's hook passes to \<^verbatim>\<open>calcAverageRatings\<close>: \<^verbatim>\<open>this.tour\<close> of the
  new document (line 100), \<^verbatim>\<open>this.r.tour\<close> of the document read by the \<^verbatim>\<open>pre\<close> hook
  (line 114), and none when that document is missing.
\<close>

fun recomputed :: "op \<Rightarrow> 'a db \<Rightarrow> objectId option option" where
  "recomputed (Create now newId inp) s = Some (in_tour inp)"
| "recomputed (Update rv i p) s = map_option tour (pre_findOneAnd i s)"
| "recomputed (Delete i) s = map_option tour (pre_findOneAnd i s)"

subsection \<open>Sample data\<close>

text \<open>
  Two tours that still carry the defaults of a tour without reviews, and two reviews of the
  first one, with ratings 5 and 3.
\<close>

definition forest_hiker :: "string tour_doc" where
  "forest_hiker = \<lparr>ratingsQuantity = 0, ratingsAverage = Some (9 / 2), other_paths = ''The Forest Hiker''\<rparr>"

definition sea_explorer :: "string tour_doc" where
  "sea_explorer = \<lparr>ratingsQuantity = 0, ratingsAverage = Some (9 / 2), other_paths = ''The Sea Explorer''\<rparr>"

definition review_R :: review_doc where
  "review_R = \<lparr>rid = 10, review = Some ''Amazing'', rating = Some 5, createdAt = 7,
               tour = Some 7, user = Some 100\<rparr>"

definition review_other :: review_doc where
  "review_other = \<lparr>rid = 11, review = Some ''Fine'', rating = Some 3, createdAt = 8,
                   tour = Some 7, user = Some 101\<rparr>"

definition demo_db :: "string db" where
  "demo_db = \<lparr>reviews = [review_R, review_other],
              tours = [7 \<mapsto> forest_hiker, 8 \<mapsto> sea_explorer]\<rparr>"

definition third_review :: review_input where
  "third_review = \<lparr>in_review = Some ''Good'', in_rating = Some 4, in_createdAt = None,
                    in_tour = Some 7, in_user = Some 102\<rparr>"

text \<open>
  Stores that hold reviews of both tours: one with two reviews of the first tour, one with
  a single review of each tour.
\<close>

definition review_sea :: review_doc where
  "review_sea = \<lparr>rid = 20, review = Some ''Wet'', rating = Some 2, createdAt = 9,
                 tour = Some 8, user = Some 103\<rparr>"

definition busy_db :: "string db" where
  "busy_db = \<lparr>reviews = [review_R, review_sea, review_other],
              tours = [7 \<mapsto> forest_hiker, 8 \<mapsto> sea_explorer]\<rparr>"

definition last_review_db :: "string db" where
  "last_review_db =
     \<lparr>reviews = [review_R, review_sea],
      tours = [7 \<mapsto> \<lparr>ratingsQuantity = 1, ratingsAverage = Some 5,
                       other_paths = ''The Forest Hiker''\<rparr>,
               8 \<mapsto> \<lparr>ratingsQuantity = 1, ratingsAverage = Some 2,
                       other_paths = ''The Sea Explorer''\<rparr>]\<rparr>"

text \<open>A store without reviews, a review without rating, and three reviews rated 1, 1 and 2.\<close>

definition tours_only_db :: "string db" where
  "tours_only_db = \<lparr>reviews = [], tours = [7 \<mapsto> forest_hiker, 8 \<mapsto> sea_explorer]\<rparr>"

definition unrated_review :: review_input where
  "unrated_review = \<lparr>in_review = Some ''No stars'', in_rating = None, in_createdAt = None,
                      in_tour = Some 7, in_user = Some 100\<rparr>"

definition rated_review :: "rat \<Rightarrow> objectId \<Rightarrow> review_input" where
  "rated_review x u = \<lparr>in_review = Some ''Rated'', in_rating = Some x, in_createdAt = None,
                        in_tour = Some 7, in_user = Some u\<rparr>"

text \<open>Further requests.\<close>

definition move_to_sea_explorer :: review_patch where
  "move_to_sea_explorer = \<lparr>p_review = None, p_rating = None, p_createdAt = None,
                            p_tour = Some 8, p_user = None\<rparr>"

definition second_by_same_user :: review_input where
  "second_by_same_user = \<lparr>in_review = Some ''Again'', in_rating = Some 1, in_createdAt = None,
                           in_tour = Some 7, in_user = Some 100\<rparr>"

definition no_text_review :: review_input where
  "no_text_review = \<lparr>in_review = None, in_rating = Some 4, in_createdAt = None,
                      in_tour = Some 7, in_user = Some 102\<rparr>"

definition empty_text_review :: review_input where
  "empty_text_review = \<lparr>in_review = Some [], in_rating = Some 4, in_createdAt = None,
                         in_tour = Some 7, in_user = Some 102\<rparr>"

definition no_tour_review :: review_input where
  "no_tour_review = \<lparr>in_review = Some ''Good'', in_rating = Some 4, in_createdAt = None,
                      in_tour = None, in_user = Some 102\<rparr>"

definition fourth_review :: review_input where
  "fourth_review = \<lparr>in_review = Some ''Nice'', in_rating = Some 2, in_createdAt = None,
                     in_tour = Some 8, in_user = Some 103\<rparr>"

definition set_rating_2 :: review_patch where
  "set_rating_2 = \<lparr>p_review = None, p_rating = Some 2, p_createdAt = None,
                    p_tour = None, p_user = None\<rparr>"

section \<open>Properties\<close>

subsection \<open>The pipeline returns at most one group\<close>

lemma remdups_replicate_Suc: "remdups (replicate (Suc n) x) = [x]"
  by (induction n) auto

lemma remdups_replicate_same: "n > 0 \<Longrightarrow> remdups (replicate n x) = [x]"
  using remdups_replicate_Suc [of "n - 1" x] by simp

lemma map_tour_match: "map tour (match_tour tourId ds) = replicate (length (match_tour tourId ds)) tourId"
  by (induction ds) (auto simp: match_tour_def)

lemma match_tour_idem: "match_tour tourId (match_tour tourId ds) = match_tour tourId ds"
  by (simp add: match_tour_def)

lemma aggregate_Nil: "match_tour tourId ds = [] \<Longrightarrow> aggregate tourId ds = []"
  by (simp add: aggregate_def group_by_tour_def)

lemma aggregate_single:
  assumes "match_tour tourId ds \<noteq> []"
  shows "aggregate tourId ds =
           [\<lparr>group_id = tourId, nRating = length (match_tour tourId ds),
             avgRating = avg (match_tour tourId ds)\<rparr>]"
proof -
  have "remdups (map tour (match_tour tourId ds)) = [tourId]"
    using assms by (simp add: map_tour_match remdups_replicate_same)
  then show ?thesis
    by (simp add: aggregate_def group_by_tour_def match_tour_idem)
qed

lemma calcAverageRatings_eq:
  "calcAverageRatings tourId s =
     (None, s\<lparr>tours := Tour_findByIdAndUpdate tourId (length (match_tour tourId (reviews s)))
                 (if match_tour tourId (reviews s) = [] then Some (9 / 2)
                  else avg (match_tour tourId (reviews s)))
                 (tours s)\<rparr>)"
proof (cases "match_tour tourId (reviews s) = []")
  case True
  then show ?thesis by (simp add: calcAverageRatings_def aggregate_Nil)
next
  case False
  then show ?thesis by (simp add: calcAverageRatings_def aggregate_single)
qed

lemma calc_reviews: "reviews (snd (calcAverageRatings tourId s)) = reviews s"
  by (simp add: calcAverageRatings_eq)

lemma calc_no_error: "fst (calcAverageRatings tourId s) = None"
  by (simp add: calcAverageRatings_eq)

lemma Tour_update_dom: "dom (Tour_findByIdAndUpdate tourId q a ts) = dom ts"
  by (auto simp: Tour_findByIdAndUpdate_def split: option.splits)

lemma Tour_update_other: "tourId \<noteq> Some T' \<Longrightarrow> Tour_findByIdAndUpdate tourId q a ts T' = ts T'"
  by (auto simp: Tour_findByIdAndUpdate_def split: option.splits)

lemma Tour_update_hit:
  "ts T = Some t \<Longrightarrow>
   Tour_findByIdAndUpdate (Some T) q a ts = ts(T \<mapsto> t\<lparr>ratingsQuantity := q, ratingsAverage := a\<rparr>)"
  by (simp add: Tour_findByIdAndUpdate_def)

lemma Tour_update_miss: "ts T = None \<Longrightarrow> Tour_findByIdAndUpdate (Some T) q a ts = ts"
  by (simp add: Tour_findByIdAndUpdate_def)

lemma calc_dom: "dom (tours (snd (calcAverageRatings tourId s))) = dom (tours s)"
  by (simp add: calcAverageRatings_eq Tour_update_dom)

lemma ratingValues_all_present:
  "list_all (\<lambda>d. rating d \<noteq> None) ds \<Longrightarrow> map Some (ratingValues ds) = map rating ds"
  by (induction ds) (auto simp: ratingValues_def)

lemma length_ratingValues:
  assumes "list_all (\<lambda>d. rating d \<noteq> None) ds"
  shows "length (ratingValues ds) = length ds"
proof -
  have "length (map Some (ratingValues ds)) = length (map rating ds)"
    using assms by (simp only: ratingValues_all_present)
  then show ?thesis by simp
qed

lemma post_findOneAnd_Some: "post_findOneAnd (Some d) s = calcAverageRatings (tour d) s"
  by (simp add: post_findOneAnd_def)

lemma apply_op_success:
  assumes "apply_op lt x s = (None, s2)" and "recomputed x s = Some tid"
  shows "\<exists>s1. reviews s1 = reviews s2 \<and> tours s1 = tours s \<and> s2 = snd (calcAverageRatings tid s1)"
proof (cases x)
  case (Create now newId inp)
  with assms show ?thesis
    by (auto simp: create_def Let_def post_save_def new_doc_def calc_reviews split: if_splits
        intro!: exI [where x = "s\<lparr>reviews := reviews s2\<rparr>"])
next
  case (Update rv i p)
  with assms show ?thesis
    by (auto simp: findByIdAndUpdate_def Let_def post_findOneAnd_def calc_reviews
             split: sum.splits option.splits)
       (metis calc_reviews db.select_convs(1) db.select_convs(2) db.surjective db.update_convs(1) snd_conv)
next
  case (Delete i)
  with assms show ?thesis
    by (auto simp: findByIdAndDelete_def Let_def post_findOneAnd_def calc_reviews
             split: option.splits)
       (metis calc_reviews db.select_convs(1) db.select_convs(2) db.surjective db.update_convs(1) snd_conv)
qed

lemma apply_op_dom: "dom (tours (snd (apply_op lt x s))) = dom (tours s)"
proof (cases x)
  case (Create now newId inp)
  then show ?thesis by (simp add: create_def Let_def post_save_def calc_dom)
next
  case (Update rv i p)
  then show ?thesis
    by (simp add: findByIdAndUpdate_def Let_def post_findOneAnd_def calc_dom
             split: sum.splits option.splits)
next
  case (Delete i)
  then show ?thesis
    by (simp add: findByIdAndDelete_def Let_def post_findOneAnd_def calc_dom split: option.splits)
qed

lemma run_dom: "dom (tours (run lt xs s)) = dom (tours s)"
  by (induction xs arbitrary: s) (simp_all add: apply_op_dom)

lemma calc_hit:
  assumes "tours s T = Some t"
  shows "calcAverageRatings (Some T) s =
           (None, s\<lparr>tours := (tours s)(T \<mapsto> t\<lparr>ratingsQuantity := length (match_tour (Some T) (reviews s)),
                      ratingsAverage := (if match_tour (Some T) (reviews s) = [] then Some (9 / 2)
                                         else avg (match_tour (Some T) (reviews s)))\<rparr>)\<rparr>)"
  using assms by (simp add: calcAverageRatings_eq Tour_update_hit)


subsection \<open>Count and average\<close>

lemma calc_explicit:
  assumes "tours s T = Some t"
    and "live = filter (\<lambda>d. tour d = Some T) (reviews s)"
    and "vals = List.map_filter rating live"
  shows "calcAverageRatings (Some T) s =
           (None, s\<lparr>tours := (tours s)(T \<mapsto>
              t\<lparr>ratingsQuantity := length live,
                ratingsAverage :=
                  (if live = [] then Some (9 / 2)
                   else if vals = [] then None
                   else Some (to_double (to_double (sum_list vals) / of_nat (length vals))))\<rparr>)\<rparr>)"
  using assms by (simp add: calc_hit match_tour_def avg_def ratingValues_def mean_def)

text \<open>
  C1 (as amended). For a tour \<open>T\<close> that exists and has at least one review,
  \<^verbatim>\<open>calcAverageRatings\<close> raises no error and sets \<open>ratingsQuantity\<close> of \<open>T\<close> to the number of
  stored reviews whose tour is \<open>T\<close>, and \<open>ratingsAverage\<close> to \<^verbatim>\<open>null\<close> when none of these
  reviews has a rating, and otherwise to the double that results from dividing the sum of the
  ratings present, rounded to a double, by their number (first conjunct). When each of these
  reviews has a rating and neither the sum nor the quotient needs rounding, that value is the
  sum of the ratings divided by the number of reviews, the arithmetic mean (second conjunct).
  Hence (third conjunct) after any sequence of creations, updates and deletions, when a last
  operation succeeds and its hook recomputes \<open>T\<close>, the two fields of \<open>T\<close> are that count and
  that average of the reviews then stored for \<open>T\<close>, provided there is one. The reviews of
  \<open>T\<close> are written as \<open>live\<close>, the ratings they carry as \<open>vals\<close>.
\<close>

theorem calcAverageRatings_count_and_average:
  fixes s s0 s2 :: "'a db"
  assumes "live = filter (\<lambda>d. tour d = Some T) (reviews s)"
    and "vals = List.map_filter rating live"
    and "live2 = filter (\<lambda>d. tour d = Some T) (reviews s2)"
    and "vals2 = List.map_filter rating live2"
  shows
    "(tours s T = Some t \<and> live \<noteq> [] \<longrightarrow>
        calcAverageRatings (Some T) s =
          (None, s\<lparr>tours := (tours s)(T \<mapsto>
             t\<lparr>ratingsQuantity := length live,
               ratingsAverage :=
                 (if vals = [] then None
                  else Some (to_double (to_double (sum_list vals) / of_nat (length vals))))\<rparr>)\<rparr>)) \<and>
     (tours s T = Some t \<and> live \<noteq> [] \<and> list_all (\<lambda>d. rating d \<noteq> None) live \<and>
      to_double (sum_list vals) = sum_list vals \<and>
      to_double (sum_list vals / of_nat (length live)) = sum_list vals / of_nat (length live) \<longrightarrow>
        map rating live = map Some vals \<and>
        calcAverageRatings (Some T) s =
          (None, s\<lparr>tours := (tours s)(T \<mapsto>
             t\<lparr>ratingsQuantity := length live,
               ratingsAverage := Some (sum_list vals / of_nat (length live))\<rparr>)\<rparr>)) \<and>
     (T \<in> dom (tours s0) \<and>
      recomputed x (run loadTime xs s0) = Some (Some T) \<and>
      apply_op loadTime x (run loadTime xs s0) = (None, s2) \<and>
      live2 \<noteq> [] \<longrightarrow>
        map_option ratingsQuantity (tours s2 T) = Some (length live2) \<and>
        map_option ratingsAverage (tours s2 T) =
          Some (if vals2 = [] then None
                else Some (to_double (to_double (sum_list vals2) / of_nat (length vals2)))))"
proof (intro conjI impI)
  assume a: "tours s T = Some t \<and> live \<noteq> []"
  then have t: "tours s T = Some t" by simp
  from a show "calcAverageRatings (Some T) s =
          (None, s\<lparr>tours := (tours s)(T \<mapsto>
             t\<lparr>ratingsQuantity := length live,
               ratingsAverage :=
                 (if vals = [] then None
                  else Some (to_double (to_double (sum_list vals) / of_nat (length vals))))\<rparr>)\<rparr>)"
    by (simp add: calc_explicit [OF t assms(1) assms(2)])
next
  assume a: "tours s T = Some t \<and> live \<noteq> [] \<and> list_all (\<lambda>d. rating d \<noteq> None) live \<and>
      to_double (sum_list vals) = sum_list vals \<and>
      to_double (sum_list vals / of_nat (length live)) = sum_list vals / of_nat (length live)"
  then have "list_all (\<lambda>d. rating d \<noteq> None) live" by simp
  then show "map rating live = map Some vals"
    using ratingValues_all_present [of live] by (simp add: assms(2) ratingValues_def)
next
  assume a: "tours s T = Some t \<and> live \<noteq> [] \<and> list_all (\<lambda>d. rating d \<noteq> None) live \<and>
      to_double (sum_list vals) = sum_list vals \<and>
      to_double (sum_list vals / of_nat (length live)) = sum_list vals / of_nat (length live)"
  then have t: "tours s T = Some t" and ne: "live \<noteq> []"
    and r: "list_all (\<lambda>d. rating d \<noteq> None) live"
    and e1: "to_double (sum_list vals) = sum_list vals"
    and e2: "to_double (sum_list vals / of_nat (length live)) = sum_list vals / of_nat (length live)"
    by simp_all
  from r have len: "length vals = length live"
    using length_ratingValues [of live] by (simp add: assms(2) ratingValues_def)
  with ne have nv: "vals \<noteq> []" by auto
  have "to_double (to_double (sum_list vals) / of_nat (length vals)) =
          sum_list vals / of_nat (length live)"
    by (simp only: e1 len e2)
  with ne nv show "calcAverageRatings (Some T) s =
          (None, s\<lparr>tours := (tours s)(T \<mapsto>
             t\<lparr>ratingsQuantity := length live,
               ratingsAverage := Some (sum_list vals / of_nat (length live))\<rparr>)\<rparr>)"
    by (simp add: calc_explicit [OF t assms(1) assms(2)])
next
  assume a: "T \<in> dom (tours s0) \<and>
      recomputed x (run loadTime xs s0) = Some (Some T) \<and>
      apply_op loadTime x (run loadTime xs s0) = (None, s2) \<and>
      live2 \<noteq> []"
  then have "T \<in> dom (tours (run loadTime xs s0))" by (simp add: run_dom)
  then obtain tm where tm: "tours (run loadTime xs s0) T = Some tm" by auto
  from a obtain s1 where s1: "reviews s1 = reviews s2" "tours s1 = tours (run loadTime xs s0)"
      "s2 = snd (calcAverageRatings (Some T) s1)"
    using apply_op_success by blast
  from tm s1(2) have t1: "tours s1 T = Some tm" by simp
  have l1: "live2 = filter (\<lambda>d. tour d = Some T) (reviews s1)"
    by (simp add: assms(3) s1(1))
  from a have ne: "live2 \<noteq> []" by simp
  have "tours (snd (calcAverageRatings (Some T) s1)) T =
          Some (tm\<lparr>ratingsQuantity := length live2,
                   ratingsAverage :=
                     (if vals2 = [] then None
                      else Some (to_double (to_double (sum_list vals2) / of_nat (length vals2))))\<rparr>)"
    using ne by (simp add: calc_explicit [OF t1 l1 assms(4)])
  then have t2: "tours s2 T =
          Some (tm\<lparr>ratingsQuantity := length live2,
                   ratingsAverage :=
                     (if vals2 = [] then None
                      else Some (to_double (to_double (sum_list vals2) / of_nat (length vals2))))\<rparr>)"
    by (simp only: s1(3) [symmetric])
  show "map_option ratingsQuantity (tours s2 T) = Some (length live2)"
    by (simp add: t2)
  show "map_option ratingsAverage (tours s2 T) =
          Some (if vals2 = [] then None
                else Some (to_double (to_double (sum_list vals2) / of_nat (length vals2))))"
    by (simp add: t2)
qed

theorem calcAverageRatings_count_and_average_witness:
  "map tour (reviews busy_db) = [Some 7, Some 8, Some 7] \<and>
   map rating (reviews busy_db) = [Some 5, Some 2, Some 3] \<and>
   map_option ratingsQuantity (tours (snd (calcAverageRatings (Some 7) busy_db)) 7) = Some 2 \<and>
   map_option ratingsAverage (tours (snd (calcAverageRatings (Some 7) busy_db)) 7) = Some (Some 4) \<and>
   map tour (reviews (snd (apply_op 3 (Delete 11) (run 3 [Create 50 12 third_review] busy_db)))) =
     [Some 7, Some 8, Some 7] \<and>
   map rating (reviews (snd (apply_op 3 (Delete 11) (run 3 [Create 50 12 third_review] busy_db)))) =
     [Some 5, Some 2, Some 4] \<and>
   map_option ratingsQuantity
     (tours (snd (apply_op 3 (Delete 11) (run 3 [Create 50 12 third_review] busy_db))) 7) = Some 2 \<and>
   map_option ratingsAverage
     (tours (snd (apply_op 3 (Delete 11) (run 3 [Create 50 12 third_review] busy_db))) 7) =
       Some (Some (9 / 2))"
proof -
  let ?mid = "run 3 [Create 50 12 third_review] busy_db"
  let ?end = "snd (apply_op 3 (Delete 11) ?mid)"
  let ?live = "[review_R, review_other]"
  let ?live2 = "[review_R, new_doc 3 50 12 third_review]"
  have l: "?live = filter (\<lambda>d. tour d = Some 7) (reviews busy_db)" by code_simp
  have v: "[5, 3] = List.map_filter rating ?live" by code_simp
  have l2: "?live2 = filter (\<lambda>d. tour d = Some 7) (reviews ?end)" by code_simp
  have v2: "[5, 4] = List.map_filter rating ?live2" by code_simp
  have t7: "tours busy_db 7 = Some forest_hiker" by code_simp
  have h2: "tours busy_db 7 = Some forest_hiker \<and> ?live \<noteq> [] \<and>
            list_all (\<lambda>d. rating d \<noteq> None) ?live \<and>
            to_double (sum_list [5, 3]) = sum_list [5, 3] \<and>
            to_double (sum_list [5, 3] / of_nat (length ?live)) = sum_list [5, 3] / of_nat (length ?live)"
    by code_simp
  have ok: "fst (apply_op 3 (Delete 11) ?mid) = None" by code_simp
  have h3: "7 \<in> dom (tours busy_db) \<and>
            recomputed (Delete 11) ?mid = Some (Some 7) \<and>
            apply_op 3 (Delete 11) ?mid = (None, ?end) \<and>
            ?live2 \<noteq> []"
  proof (intro conjI)
    show "7 \<in> dom (tours busy_db)" using t7 by blast
    show "recomputed (Delete 11) ?mid = Some (Some 7)" by code_simp
    show "apply_op 3 (Delete 11) ?mid = (None, ?end)" using ok by (simp add: prod_eq_iff)
    show "?live2 \<noteq> []" by simp
  qed
  have r2: "to_double (to_double (sum_list [5, 4]) / of_nat (length [5, 4 :: rat])) = 9 / 2"
    by code_simp
  have shape: "map tour (reviews busy_db) = [Some 7, Some 8, Some 7] \<and>
               map rating (reviews busy_db) = [Some 5, Some 2, Some 3] \<and>
               map tour (reviews ?end) = [Some 7, Some 8, Some 7] \<and>
               map rating (reviews ?end) = [Some 5, Some 2, Some 4]"
    by code_simp
  note inst = calcAverageRatings_count_and_average
    [OF l v l2 v2, where t = forest_hiker and ?s0.0 = busy_db and x = "Delete 11"
       and loadTime = 3 and xs = "[Create 50 12 third_review]"]
  from inst h2 have a: "calcAverageRatings (Some 7) busy_db =
      (None, busy_db\<lparr>tours := (tours busy_db)(7 \<mapsto>
         forest_hiker\<lparr>ratingsQuantity := length ?live,
           ratingsAverage := Some (sum_list [5, 3] / of_nat (length ?live))\<rparr>)\<rparr>)"
    by blast
  from inst h3 have c:
    "map_option ratingsQuantity (tours ?end 7) = Some (length ?live2) \<and>
     map_option ratingsAverage (tours ?end 7) =
       Some (if [5, 4 :: rat] = [] then None
             else Some (to_double (to_double (sum_list [5, 4]) / of_nat (length [5, 4 :: rat]))))"
    by blast
  have q1: "map_option ratingsQuantity (tours (snd (calcAverageRatings (Some 7) busy_db)) 7) = Some 2"
    unfolding a by simp
  have q2: "map_option ratingsAverage (tours (snd (calcAverageRatings (Some 7) busy_db)) 7) = Some (Some 4)"
    unfolding a by simp
  from c have q3: "map_option ratingsQuantity (tours ?end 7) = Some 2"
    by (auto simp: numeral_2_eq_2)
  from c have q4: "map_option ratingsAverage (tours ?end 7) = Some (Some (9 / 2))"
    unfolding r2 by auto
  from shape q1 q2 q3 q4 show ?thesis by blast
qed

text \<open>
  C1 as the specification words it does not hold: the average that is written is not always
  the arithmetic mean of the ratings. The schema does not require \<^verbatim>\<open>rating\<close>, so a review
  without rating is created, and the recomputation then counts it and writes \<^verbatim>\<open>null\<close> as the
  average. And for three reviews rated 1, 1 and 2 the average written is the double
  \<open>1.3333333333333333\<close>, which is not the mean \<open>4 / 3\<close>.
\<close>

theorem calcAverageRatings_mean_counterexample:
  "fst (create 3 50 30 unrated_review tours_only_db) = None \<and>
   map tour (reviews (snd (create 3 50 30 unrated_review tours_only_db))) = [Some 7] \<and>
   map rating (reviews (snd (create 3 50 30 unrated_review tours_only_db))) = [None] \<and>
   map_option ratingsQuantity
     (tours (snd (calcAverageRatings (Some 7) (snd (create 3 50 30 unrated_review tours_only_db)))) 7) =
     Some 1 \<and>
   map_option ratingsAverage
     (tours (snd (calcAverageRatings (Some 7) (snd (create 3 50 30 unrated_review tours_only_db)))) 7) =
     Some None \<and>
   map tour (reviews (run 3 [Create 50 31 (rated_review 1 100), Create 51 32 (rated_review 1 101),
                              Create 52 33 (rated_review 2 102)] tours_only_db)) =
     [Some 7, Some 7, Some 7] \<and>
   map rating (reviews (run 3 [Create 50 31 (rated_review 1 100), Create 51 32 (rated_review 1 101),
                                Create 52 33 (rated_review 2 102)] tours_only_db)) =
     [Some 1, Some 1, Some 2] \<and>
   map_option ratingsAverage
     (tours (snd (calcAverageRatings (Some 7)
        (run 3 [Create 50 31 (rated_review 1 100), Create 51 32 (rated_review 1 101),
                Create 52 33 (rated_review 2 102)] tours_only_db))) 7) =
     Some (Some (6004799503160661 / 4503599627370496)) \<and>
   (6004799503160661 / 4503599627370496 :: rat) \<noteq> (1 + 1 + 2) / 3"
  by code_simp

subsection \<open>The default of a tour without reviews\<close>

text \<open>
  C2. For a tour \<open>T\<close> that exists, when no stored review has \<open>T\<close> as its tour,
  \<^verbatim>\<open>calcAverageRatings\<close> raises no error and sets \<open>ratingsQuantity\<close> of \<open>T\<close> to 0 and
  \<open>ratingsAverage\<close> to 4.5, whatever the two fields held before and whatever reviews of other
  tours are stored; nothing else changes. The witness deletes the only review of a tour
  while a review of another tour stays in the store.
\<close>

theorem calcAverageRatings_empty_default:
  fixes s :: "'a db"
  assumes "tours s T = Some t" and "\<forall>d \<in> set (reviews s). tour d \<noteq> Some T"
  shows "calcAverageRatings (Some T) s =
           (None, s\<lparr>tours := (tours s)(T \<mapsto> t\<lparr>ratingsQuantity := 0, ratingsAverage := Some (9 / 2)\<rparr>)\<rparr>)"
proof -
  from assms(2) have "filter (\<lambda>d. tour d = Some T) (reviews s) = []"
    by (simp add: filter_empty_conv)
  with calc_explicit [OF assms(1) refl refl] show ?thesis by simp
qed

theorem calcAverageRatings_empty_default_witness:
  "map tour (reviews last_review_db) = [Some 7, Some 8] \<and>
   map_option ratingsQuantity (tours last_review_db 7) = Some 1 \<and>
   map_option ratingsAverage (tours last_review_db 7) = Some (Some 5) \<and>
   fst (findByIdAndDelete 10 last_review_db) = None \<and>
   reviews (snd (findByIdAndDelete 10 last_review_db)) = [review_sea] \<and>
   tour review_sea = Some 8 \<and>
   tours (snd (findByIdAndDelete 10 last_review_db)) 7 =
     Some \<lparr>ratingsQuantity = 0, ratingsAverage = Some (9 / 2), other_paths = ''The Forest Hiker''\<rparr>"
proof -
  let ?s = "last_review_db\<lparr>reviews := deleteOne 10 (reviews last_review_db)\<rparr>"
  let ?t = "\<lparr>ratingsQuantity = 1, ratingsAverage = Some 5, other_paths = ''The Forest Hiker''\<rparr>"
  have f: "findOne 10 (reviews last_review_db) = Some review_R" by code_simp
  have tr: "tour review_R = Some 7" by code_simp
  have del: "findByIdAndDelete 10 last_review_db = calcAverageRatings (Some 7) ?s"
    using f tr by (simp add: findByIdAndDelete_def pre_findOneAnd_def post_findOneAnd_def)
  have h1: "tours ?s 7 = Some ?t" by (simp add: last_review_db_def)
  have r: "reviews ?s = [review_sea]" by code_simp
  have h2: "\<forall>d \<in> set (reviews ?s). tour d \<noteq> Some 7" unfolding r by code_simp
  have before: "map tour (reviews last_review_db) = [Some 7, Some 8] \<and>
                map_option ratingsQuantity (tours last_review_db 7) = Some 1 \<and>
                map_option ratingsAverage (tours last_review_db 7) = Some (Some 5) \<and>
                tour review_sea = Some 8"
    by code_simp
  from calcAverageRatings_empty_default [OF h1 h2] del
  have "findByIdAndDelete 10 last_review_db =
          (None, ?s\<lparr>tours := (tours ?s)(7 \<mapsto> ?t\<lparr>ratingsQuantity := 0, ratingsAverage := Some (9 / 2)\<rparr>)\<rparr>)"
    by simp
  then have "fst (findByIdAndDelete 10 last_review_db) = None \<and>
             reviews (snd (findByIdAndDelete 10 last_review_db)) = [review_sea] \<and>
             tours (snd (findByIdAndDelete 10 last_review_db)) 7 =
               Some \<lparr>ratingsQuantity = 0, ratingsAverage = Some (9 / 2),
                     other_paths = ''The Forest Hiker''\<rparr>"
    using r by simp
  with before show ?thesis by blast
qed

subsection \<open>Recomputation for a tour that does not exist\<close>

text \<open>
  C6. For an id \<open>T\<close> that resolves to no tour, \<^verbatim>\<open>calcAverageRatings\<close> raises no error and
  returns the database as it was: nothing is written and no tour is created.
\<close>

theorem calcAverageRatings_dangling_noop:
  fixes s :: "'a db"
  assumes "tours s T = None"
  shows "calcAverageRatings (Some T) s = (None, s)"
  using assms by (simp add: calcAverageRatings_eq Tour_update_miss)

theorem calcAverageRatings_dangling_noop_witness:
  "tours demo_db 99 = None \<and> calcAverageRatings (Some 99) demo_db = (None, demo_db)"
proof -
  have h: "tours demo_db 99 = None" by code_simp
  from calcAverageRatings_dangling_noop [OF h] h show ?thesis by simp
qed

subsection \<open>What the recomputation leaves alone\<close>

text \<open>
  C9. Whatever \<^verbatim>\<open>calcAverageRatings\<close> returns for the id \<open>T\<close>, the reviews are unchanged, the
  set of tours is unchanged, every tour other than \<open>T\<close> is unchanged, and the tour \<open>T\<close>, when it
  exists, differs from what it was in \<open>ratingsQuantity\<close> and \<open>ratingsAverage\<close> at most.
\<close>

theorem calcAverageRatings_frame:
  fixes s s' :: "'a db"
  assumes "calcAverageRatings (Some T) s = (e, s')"
  shows "reviews s' = reviews s \<and>
         dom (tours s') = dom (tours s) \<and>
         (\<forall>T'. T' \<noteq> T \<longrightarrow> tours s' T' = tours s T') \<and>
         (\<forall>t. tours s T = Some t \<longrightarrow>
            (\<exists>q a. tours s' T = Some (t\<lparr>ratingsQuantity := q, ratingsAverage := a\<rparr>)))"
proof -
  from assms have s': "s' = snd (calcAverageRatings (Some T) s)" by simp
  have "reviews s' = reviews s" by (simp add: s' calc_reviews)
  moreover have "dom (tours s') = dom (tours s)" by (simp add: s' calc_dom)
  moreover have "\<forall>T'. T' \<noteq> T \<longrightarrow> tours s' T' = tours s T'"
    by (simp add: s' calcAverageRatings_eq Tour_update_other)
  moreover have "\<forall>t. tours s T = Some t \<longrightarrow>
            (\<exists>q a. tours s' T = Some (t\<lparr>ratingsQuantity := q, ratingsAverage := a\<rparr>))"
    by (auto simp: s' calc_hit)
  ultimately show ?thesis by blast
qed

theorem calcAverageRatings_frame_witness:
  "reviews (snd (calcAverageRatings (Some 7) demo_db)) = reviews demo_db \<and>
   tours (snd (calcAverageRatings (Some 7) demo_db)) 8 = Some sea_explorer \<and>
   map_option other_paths (tours (snd (calcAverageRatings (Some 7) demo_db)) 7) =
     Some ''The Forest Hiker''"
proof -
  let ?s' = "snd (calcAverageRatings (Some 7) demo_db)"
  have h: "calcAverageRatings (Some 7) demo_db = (fst (calcAverageRatings (Some 7) demo_db), ?s')"
    by simp
  have t7: "tours demo_db 7 = Some forest_hiker" by code_simp
  have t8: "tours demo_db 8 = Some sea_explorer" by code_simp
  have o: "other_paths forest_hiker = ''The Forest Hiker''" by code_simp
  note inst = calcAverageRatings_frame [OF h]
  from inst have "reviews ?s' = reviews demo_db" by blast
  moreover from inst have "tours ?s' 8 = tours demo_db 8" by simp
  moreover from inst t7
  obtain q a where "tours ?s' 7 = Some (forest_hiker\<lparr>ratingsQuantity := q, ratingsAverage := a\<rparr>)"
    by blast
  ultimately show ?thesis using t8 o by simp
qed

subsection \<open>The hooks around update and delete\<close>

lemma findOne_replaceOne_mem: "findOne i ds = Some r \<Longrightarrow> d' \<in> set (replaceOne i d' ds)"
  by (induction ds) (auto split: if_splits)

lemma delete_found:
  "findOne i (reviews s) = Some r \<Longrightarrow>
   findByIdAndDelete i s = calcAverageRatings (tour r) (s\<lparr>reviews := deleteOne i (reviews s)\<rparr>)"
  by (simp add: findByIdAndDelete_def pre_findOneAnd_def post_findOneAnd_def)

lemma update_found:
  "findOne i (reviews s) = Some r \<Longrightarrow> exec_update rv i p (reviews s) = Inr ds \<Longrightarrow>
   findByIdAndUpdate rv i p s = calcAverageRatings (tour r) (s\<lparr>reviews := ds\<rparr>)"
  by (simp add: findByIdAndUpdate_def pre_findOneAnd_def post_findOneAnd_def)

subsection \<open>Update and delete recompute the tour read before the mutation\<close>

text \<open>
  C3. When a review with the given id exists, \<open>r\<close> being the document the
  \<^verbatim>\<open>pre(/^findOneAnd/)\<close> hook reads, a delete by id is the recomputation for the tour of \<open>r\<close>
  run on the store without the review, and an update by id that the store accepts is the
  recomputation for the tour of \<open>r\<close> run on the updated store. In particular a delete of a
  review of tour \<open>T\<close> that leaves reviews of \<open>T\<close> behind succeeds and sets the two fields of
  \<open>T\<close> to the count and the \<^verbatim>\<open>$avg\<close> of the remaining reviews. The witness is the example of
  the specification: deleting the review with rating 5 next to one with rating 3 leaves
  \<open>ratingsQuantity = 1\<close> and \<open>ratingsAverage = 3\<close>.
\<close>

theorem findOneAnd_recomputes_prefetched_tour:
  fixes s :: "'a db"
  assumes "findOne i (reviews s) = Some r"
  shows
    "findByIdAndDelete i s =
       calcAverageRatings (tour r) (s\<lparr>reviews := deleteOne i (reviews s)\<rparr>) \<and>
     (exec_update rv i p (reviews s) = Inr ds \<longrightarrow>
        findByIdAndUpdate rv i p s = calcAverageRatings (tour r) (s\<lparr>reviews := ds\<rparr>)) \<and>
     (tour r = Some T \<and> tours s T = Some t \<and>
      match_tour (Some T) (deleteOne i (reviews s)) \<noteq> [] \<longrightarrow>
        findByIdAndDelete i s =
          (None, s\<lparr>reviews := deleteOne i (reviews s),
                   tours := (tours s)(T \<mapsto>
                     t\<lparr>ratingsQuantity := length (match_tour (Some T) (deleteOne i (reviews s))),
                       ratingsAverage := avg (match_tour (Some T) (deleteOne i (reviews s)))\<rparr>)\<rparr>))"
proof (intro conjI impI)
  show "findByIdAndDelete i s =
       calcAverageRatings (tour r) (s\<lparr>reviews := deleteOne i (reviews s)\<rparr>)"
    using assms by (rule delete_found)
next
  assume "exec_update rv i p (reviews s) = Inr ds"
  with assms show "findByIdAndUpdate rv i p s = calcAverageRatings (tour r) (s\<lparr>reviews := ds\<rparr>)"
    by (rule update_found)
next
  assume a: "tour r = Some T \<and> tours s T = Some t \<and>
      match_tour (Some T) (deleteOne i (reviews s)) \<noteq> []"
  let ?s = "s\<lparr>reviews := deleteOne i (reviews s)\<rparr>"
  from a have t: "tours ?s T = Some t" by simp
  from a have "findByIdAndDelete i s = calcAverageRatings (Some T) ?s"
    using delete_found [OF assms] by simp
  also have "\<dots> = (None, ?s\<lparr>tours := (tours ?s)(T \<mapsto>
                     t\<lparr>ratingsQuantity := length (match_tour (Some T) (reviews ?s)),
                       ratingsAverage := avg (match_tour (Some T) (reviews ?s))\<rparr>)\<rparr>)"
    using a by (simp add: calc_hit [OF t])
  finally show "findByIdAndDelete i s =
          (None, s\<lparr>reviews := deleteOne i (reviews s),
                   tours := (tours s)(T \<mapsto>
                     t\<lparr>ratingsQuantity := length (match_tour (Some T) (deleteOne i (reviews s))),
                       ratingsAverage := avg (match_tour (Some T) (deleteOne i (reviews s)))\<rparr>)\<rparr>)"
    by simp
qed

theorem findOneAnd_recomputes_prefetched_tour_witness:
  "findOne 10 (reviews demo_db) = Some review_R \<and>
   rating review_R = Some 5 \<and> tour review_R = Some 7 \<and>
   map rating (match_tour (Some 7) (deleteOne 10 (reviews demo_db))) = [Some 3] \<and>
   fst (findByIdAndDelete 10 demo_db) = None \<and>
   reviews (snd (findByIdAndDelete 10 demo_db)) = [review_other] \<and>
   map_option ratingsQuantity (tours (snd (findByIdAndDelete 10 demo_db)) 7) = Some 1 \<and>
   map_option ratingsAverage (tours (snd (findByIdAndDelete 10 demo_db)) 7) = Some (Some 3)"
proof -
  have h0: "findOne 10 (reviews demo_db) = Some review_R" by code_simp
  have h1: "tour review_R = Some 7 \<and> tours demo_db 7 = Some forest_hiker \<and>
            match_tour (Some 7) (deleteOne 10 (reviews demo_db)) \<noteq> []"
    by code_simp
  have m: "match_tour (Some 7) (deleteOne 10 (reviews demo_db)) = [review_other]" by code_simp
  have d: "deleteOne 10 (reviews demo_db) = [review_other]" by code_simp
  have m': "match_tour (Some 7) [review_other] = [review_other]" by code_simp
  have a: "avg [review_other] = Some 3" by code_simp
  have r: "rating review_R = Some 5 \<and> map rating [review_other] = [Some 3]" by code_simp
  note inst = findOneAnd_recomputes_prefetched_tour [OF h0, where T = 7 and t = forest_hiker]
  from inst h1 have "findByIdAndDelete 10 demo_db =
      (None, demo_db\<lparr>reviews := deleteOne 10 (reviews demo_db),
         tours := (tours demo_db)(7 \<mapsto>
           forest_hiker\<lparr>ratingsQuantity := length (match_tour (Some 7) (deleteOne 10 (reviews demo_db))),
             ratingsAverage := avg (match_tour (Some 7) (deleteOne 10 (reviews demo_db)))\<rparr>)\<rparr>)"
    by blast
  then have "findByIdAndDelete 10 demo_db =
      (None, demo_db\<lparr>reviews := [review_other],
         tours := (tours demo_db)(7 \<mapsto> forest_hiker\<lparr>ratingsQuantity := 1, ratingsAverage := Some 3\<rparr>)\<rparr>)"
    unfolding d m' a by simp
  then show ?thesis using h0 h1 r by (simp add: d m')
qed

subsection \<open>An update that moves a review to another tour\<close>

text \<open>
  C10. When a successful update by id changes the tour of a review from \<open>T1\<close> to another tour
  \<open>T2\<close>, the resulting database is the one the recomputation for \<open>T1\<close> alone produces from
  the updated store: the review is then stored under \<open>T2\<close>, and the tour \<open>T2\<close> is exactly as
  it was before the update. The witness moves a review to a tour that keeps
  \<open>ratingsQuantity = 0\<close> while one review is stored for it.
\<close>

theorem update_recomputes_previous_tour_only:
  fixes s s' :: "'a db"
  assumes "findOne i (reviews s) = Some r" and "tour r = Some T1" and "p_tour p = Some T2"
    and "T1 \<noteq> T2" and "findByIdAndUpdate rv i p s = (None, s')"
  shows "s' = snd (calcAverageRatings (Some T1)
                     (s\<lparr>reviews := replaceOne i (applyPatch p r) (reviews s)\<rparr>)) \<and>
         applyPatch p r \<in> set (match_tour (Some T2) (reviews s')) \<and>
         tours s' T2 = tours s T2"
proof -
  from assms(5) obtain ds where ex: "exec_update rv i p (reviews s) = Inr ds"
    by (auto simp: findByIdAndUpdate_def Let_def split: sum.splits)
  with assms(1) have ds: "ds = replaceOne i (applyPatch p r) (reviews s)"
    by (auto simp: exec_update_def split: if_splits)
  from update_found [OF assms(1) ex] assms(2,5)
  have "calcAverageRatings (Some T1) (s\<lparr>reviews := ds\<rparr>) = (None, s')" by simp
  then have s': "s' = snd (calcAverageRatings (Some T1) (s\<lparr>reviews := ds\<rparr>))" by simp
  have tp: "tour (applyPatch p r) = Some T2"
    using assms(3) by (simp add: applyPatch_def)
  have "reviews s' = ds" by (simp add: s' calc_reviews)
  with findOne_replaceOne_mem [OF assms(1), of "applyPatch p r"] tp
  have mem: "applyPatch p r \<in> set (match_tour (Some T2) (reviews s'))"
    by (simp add: ds match_tour_def)
  have "tours s' T2 = tours s T2"
    using assms(4) by (simp add: s' calcAverageRatings_eq Tour_update_other)
  with s' ds mem show ?thesis by simp
qed

theorem update_recomputes_previous_tour_only_witness:
  "fst (findByIdAndUpdate False 10 move_to_sea_explorer demo_db) = None \<and>
   map rid (match_tour (Some 8) (reviews (snd (findByIdAndUpdate False 10 move_to_sea_explorer demo_db)))) = [10] \<and>
   tours (snd (findByIdAndUpdate False 10 move_to_sea_explorer demo_db)) 8 = Some sea_explorer \<and>
   ratingsQuantity sea_explorer = 0"
proof -
  let ?s' = "snd (findByIdAndUpdate False 10 move_to_sea_explorer demo_db)"
  have h1: "findOne 10 (reviews demo_db) = Some review_R" by code_simp
  have h2: "tour review_R = Some 7" by code_simp
  have h3: "p_tour move_to_sea_explorer = Some 8" by code_simp
  have h4: "(7::nat) \<noteq> 8" by simp
  have ok: "fst (findByIdAndUpdate False 10 move_to_sea_explorer demo_db) = None" by code_simp
  then have h5: "findByIdAndUpdate False 10 move_to_sea_explorer demo_db = (None, ?s')"
    by (simp add: prod_eq_iff)
  have m: "map rid (match_tour (Some 8) (reviews ?s')) = [10]" by code_simp
  have t8: "tours demo_db 8 = Some sea_explorer" by code_simp
  have q: "ratingsQuantity sea_explorer = 0" by code_simp
  from update_recomputes_previous_tour_only [OF h1 h2 h3 h4 h5]
  have "tours ?s' 8 = tours demo_db 8" by blast
  with ok m t8 q show ?thesis by simp
qed

subsection \<open>The unique index is kept\<close>

lemma set_deleteOne: "set (deleteOne i ds) \<subseteq> set ds"
  by (induction ds) auto

lemma keys_deleteOne: "set (map index_key (deleteOne i ds)) \<subseteq> set (map index_key ds)"
  using set_deleteOne [of i ds] by auto

lemma unique_deleteOne: "unique_index ds \<Longrightarrow> unique_index (deleteOne i ds)"
proof (induction ds)
  case Nil
  then show ?case by simp
next
  case (Cons d ds)
  then show ?case
    using keys_deleteOne [of i ds] by (auto simp: unique_index_def)
qed

lemma set_replaceOne: "set (replaceOne i d' ds) \<subseteq> insert d' (set ds)"
  by (induction ds) auto

lemma replaceOne_keys:
  "set (map index_key (replaceOne i d' ds)) \<subseteq> insert (index_key d') (set (map index_key (deleteOne i ds)))"
  by (induction ds) auto

lemma unique_replaceOne:
  "unique_index ds \<Longrightarrow> index_key d' \<notin> set (map index_key (deleteOne i ds)) \<Longrightarrow>
   unique_index (replaceOne i d' ds)"
proof (induction ds)
  case Nil
  then show ?case by simp
next
  case (Cons d ds)
  show ?case
  proof (cases "rid d = i")
    case True
    with Cons.prems show ?thesis by (simp add: unique_index_def)
  next
    case False
    with Cons.prems have k: "index_key d' \<noteq> index_key d"
      and nd: "index_key d \<notin> set (map index_key ds)"
      and u: "unique_index ds"
      and nk: "index_key d' \<notin> set (map index_key (deleteOne i ds))"
      by (auto simp: unique_index_def)
    from nd keys_deleteOne [of i ds] have "index_key d \<notin> set (map index_key (deleteOne i ds))"
      by blast
    with k replaceOne_keys [of i d' ds]
    have "index_key d \<notin> set (map index_key (replaceOne i d' ds))" by auto
    moreover from Cons.IH [OF u nk] have "unique_index (replaceOne i d' ds)" .
    ultimately show ?thesis using False by (simp add: unique_index_def)
  qed
qed

lemma exec_update_unique:
  "unique_index ds \<Longrightarrow> exec_update rv i p ds = Inr ds' \<Longrightarrow> unique_index ds'"
  by (auto simp: exec_update_def unique_replaceOne split: if_splits option.splits)

lemma post_findOneAnd_reviews: "reviews (snd (post_findOneAnd r s)) = reviews s"
  by (simp add: post_findOneAnd_def calc_reviews split: option.splits)

lemma create_unique:
  "unique_index (reviews s) \<Longrightarrow> unique_index (reviews (snd (create lt now newId inp s)))"
  by (simp add: create_def Let_def post_save_def calc_reviews unique_index_def)

lemma apply_op_unique:
  assumes "unique_index (reviews s)"
  shows "unique_index (reviews (snd (apply_op lt x s)))"
proof (cases x)
  case (Create now newId inp)
  with assms show ?thesis by (simp add: create_unique)
next
  case (Update rv i p)
  with assms show ?thesis
    by (auto simp: findByIdAndUpdate_def Let_def post_findOneAnd_reviews exec_update_unique
             split: sum.splits)
next
  case (Delete i)
  with assms show ?thesis
    by (simp add: findByIdAndDelete_def Let_def post_findOneAnd_reviews unique_deleteOne)
qed

lemma run_unique: "unique_index (reviews s) \<Longrightarrow> unique_index (reviews (run lt xs s))"
  by (induction xs arbitrary: s) (simp_all add: apply_op_unique)

lemma distinct_map_filter_le1:
  "distinct (map f xs) \<Longrightarrow> length (filter (\<lambda>x. f x = k) xs) \<le> 1"
  by (induction xs) (auto simp: filter_empty_conv image_iff)

lemma unique_index_at_most_one:
  assumes "unique_index ds"
  shows "length (filter (\<lambda>d. tour d = a \<and> user d = b) ds) \<le> 1"
proof -
  have "(\<lambda>d. tour d = a \<and> user d = b) = (\<lambda>d. index_key d = (a, b))"
    by (auto simp: index_key_def)
  with distinct_map_filter_le1 [of index_key ds "(a, b)"] assms show ?thesis
    by (simp add: unique_index_def)
qed

subsection \<open>One review per tour and user\<close>

text \<open>
  C5. If no two stored reviews share their pair of tour and user, then after any sequence of
  creations, updates and deletions no two stored reviews do, so at most one review is stored
  for any pair (first conjunct). Creating a review that passes validation and whose pair is
  that of a stored review fails with a duplicate-key error and leaves the whole database, the
  aggregate fields of every tour included, as it was (second conjunct).
\<close>

theorem unique_tour_user_pair:
  fixes s :: "'a db"
  shows
    "(unique_index (reviews s) \<longrightarrow>
        unique_index (reviews (run loadTime xs s)) \<and>
        length (filter (\<lambda>d. tour d = a \<and> user d = b) (reviews (run loadTime xs s))) \<le> 1) \<and>
     (validate_doc inp \<and> (in_tour inp, in_user inp) \<in> set (map index_key (reviews s)) \<longrightarrow>
        create loadTime now newId inp s = (Some DuplicateKey, s))"
proof (intro conjI impI)
  assume u: "unique_index (reviews s)"
  then show "unique_index (reviews (run loadTime xs s))" by (rule run_unique)
  then show "length (filter (\<lambda>d. tour d = a \<and> user d = b) (reviews (run loadTime xs s))) \<le> 1"
    by (rule unique_index_at_most_one)
next
  assume "validate_doc inp \<and> (in_tour inp, in_user inp) \<in> set (map index_key (reviews s))"
  then show "create loadTime now newId inp s = (Some DuplicateKey, s)"
    by (simp add: create_def Let_def new_doc_def index_key_def)
qed

theorem unique_tour_user_pair_witness:
  "unique_index (reviews demo_db) \<and>
   validate_doc second_by_same_user \<and>
   create 3 60 13 second_by_same_user demo_db = (Some DuplicateKey, demo_db) \<and>
   unique_index (reviews (run 3 [Create 60 13 second_by_same_user, Create 50 12 third_review] demo_db)) \<and>
   length (filter (\<lambda>d. tour d = Some 7 \<and> user d = Some 100)
     (reviews (run 3 [Create 60 13 second_by_same_user, Create 50 12 third_review] demo_db))) \<le> 1"
proof -
  have h1: "unique_index (reviews demo_db)" by code_simp
  have h2: "validate_doc second_by_same_user \<and>
            (in_tour second_by_same_user, in_user second_by_same_user)
              \<in> set (map index_key (reviews demo_db))"
    by code_simp
  note inst = unique_tour_user_pair
    [of demo_db 3 "[Create 60 13 second_by_same_user, Create 50 12 third_review]"
        "Some 7" "Some 100" second_by_same_user 60 13]
  from inst h1 h2 show ?thesis by blast
qed

subsection \<open>Update and delete of a review that does not exist\<close>

text \<open>
  C4. The specification asks that an update or delete by id whose lookup finds no review skips
  the recomputation and does not fail. In the code the \<^verbatim>\<open>post(/^findOneAnd/)\<close> hook reads
  \<^verbatim>\<open>this.r.constructor\<close> without a check: with no review of id 99 in the store, the lookup
  of the \<^verbatim>\<open>pre\<close> hook yields \<^verbatim>\<open>null\<close> and both operations reject with a TypeError.
\<close>

theorem findOneAnd_missing_review_TypeError:
  "pre_findOneAnd 99 demo_db = None \<and>
   fst (findByIdAndDelete 99 demo_db) = Some TypeError \<and>
   fst (findByIdAndUpdate False 99 set_rating_2 demo_db) = Some TypeError \<and>
   fst (findByIdAndUpdate True 99 set_rating_2 demo_db) = Some TypeError"
  by code_simp

subsection \<open>What the validators let through\<close>

text \<open>
  C7. The specification asks that a review with an empty or missing text or a missing tour is
  rejected on creation. In the code the two paths carry the option \<^verbatim>\<open>rerquired\<close>, which
  Mongoose does not read: a review without text, one with the empty text and one without tour
  are each created without error and stored.
\<close>

theorem create_accepts_missing_text_and_tour:
  "fst (create 3 50 12 no_text_review demo_db) = None \<and>
   map review (reviews (snd (create 3 50 12 no_text_review demo_db))) =
     [Some ''Amazing'', Some ''Fine'', None] \<and>
   fst (create 3 50 12 empty_text_review demo_db) = None \<and>
   map review (reviews (snd (create 3 50 12 empty_text_review demo_db))) =
     [Some ''Amazing'', Some ''Fine'', Some []] \<and>
   fst (create 3 50 12 no_tour_review demo_db) = None \<and>
   map tour (reviews (snd (create 3 50 12 no_tour_review demo_db))) = [Some 7, Some 7, None]"
  by code_simp

subsection \<open>The default of createdAt\<close>

text \<open>
  C8. The specification asks that \<open>createdAt\<close> defaults to the time of insertion. In the code
  the default is the value of \<^verbatim>\<open>Date.now()\<close> at the time the schema was built: with the
  schema built at time 3, two reviews created without \<open>createdAt\<close> at times 50 and 90 are both
  stored with \<open>createdAt = 3\<close>.
\<close>

theorem createdAt_default_is_schema_load_time:
  "in_createdAt third_review = None \<and> in_createdAt fourth_review = None \<and>
   map rid (reviews (run 3 [Create 50 12 third_review, Create 90 13 fourth_review] demo_db)) =
     [10, 11, 12, 13] \<and>
   map createdAt (reviews (run 3 [Create 50 12 third_review, Create 90 13 fourth_review] demo_db)) =
     [7, 8, 3, 3]"
  by code_simp

end
